theory Spec2Isabelle
  imports Main
begin

section \<open>Vitamin reminder bot: the model of \<open>main.py\<close>\<close>

text \<open>
  The bot keeps, per Telegram user, a \<open>VitaminState\<close> (two taken-flags, two reminder
  counters and the ISO date the state belongs to), a set of registered users, a JSON file
  that mirrors both, and a job queue of daily reminder jobs. Handlers mutate the module
  globals; the model threads them through as a \<open>world\<close> record. Everything a handler
  reads from outside (the clock, whether the disk write works, whether Telegram accepts a
  message) is collected in an \<open>env\<close> record, read once per handler call.
\<close>

subsection \<open>Python strings and dates\<close>

text \<open>
  A Python \<open>str\<close> that may hold Cyrillic text is a list of Unicode code points. Strings
  that the source builds from ASCII only (job names, reminder types, ISO dates) are
  \<open>string\<close>.
\<close>

type_synonym ustr = "nat list"

definition digit_char :: "nat \<Rightarrow> char" where
  "digit_char n = ''0123456789'' ! n"

function str_nat :: "nat \<Rightarrow> string" where
  "str_nat n = (if n < 10 then [digit_char n] else str_nat (n div 10) @ [digit_char (n mod 10)])"
  by pat_completeness auto
termination
  by (relation "measure id") auto

declare str_nat.simps [simp del]

text \<open>\<open>str(i)\<close> and \<open>f'{i}'\<close> for a Python int: decimal digits, a minus sign when negative.\<close>

definition str_int :: "int \<Rightarrow> string" where
  "str_int i = (if i < 0 then CHR ''-'' # str_nat (nat (- i)) else str_nat (nat i))"

definition zfill :: "nat \<Rightarrow> string \<Rightarrow> string" where
  "zfill k s = replicate (k - length s) CHR ''0'' @ s"

text \<open>
  \<open>datetime.now(TIMEZONE).date()\<close>: a proleptic Gregorian calendar date. The ordinal and
  the two weekday numberings are those of Python's \<open>datetime.date\<close>:
  \<open>weekday()\<close> is \<open>(toordinal() + 6) % 7\<close> (Monday is 0), \<open>isoweekday()\<close> is
  \<open>toordinal() % 7 or 7\<close> (Monday is 1, Sunday is 7).
\<close>

record pydate =
  year :: nat
  month :: nat
  day :: nat

definition is_leap :: "nat \<Rightarrow> bool" where
  "is_leap y = (y mod 4 = 0 \<and> (y mod 100 \<noteq> 0 \<or> y mod 400 = 0))"

definition days_before_year :: "nat \<Rightarrow> nat" where
  "days_before_year y =
     (let y1 = y - 1 in y1 * 365 + y1 div 4 + y1 div 400 - y1 div 100)"

definition days_before_month :: "nat \<Rightarrow> nat \<Rightarrow> nat" where
  "days_before_month y m =
     [0, 0, 31, 59, 90, 120, 151, 181, 212, 243, 273, 304, 334] ! m
       + (if m > 2 \<and> is_leap y then 1 else 0)"

definition toordinal :: "pydate \<Rightarrow> nat" where
  "toordinal d = days_before_year (year d) + days_before_month (year d) (month d) + day d"

definition weekday :: "pydate \<Rightarrow> nat" where
  "weekday d = (toordinal d + 6) mod 7"

definition isoweekday :: "pydate \<Rightarrow> nat" where
  "isoweekday d = (if toordinal d mod 7 = 0 then 7 else toordinal d mod 7)"

text \<open>\<open>date.isoformat()\<close>: \<open>'%04d-%02d-%02d'\<close>.\<close>

definition isoformat :: "pydate \<Rightarrow> string" where
  "isoformat d =
     zfill 4 (str_nat (year d)) @ ''-'' @ zfill 2 (str_nat (month d)) @ ''-''
       @ zfill 2 (str_nat (day d))"

subsection \<open>The environment of one handler call\<close>

record env =
  now :: pydate      \<comment> \<open>\<open>datetime.now(TIMEZONE).date()\<close>\<close>
  disk_ok :: bool    \<comment> \<open>whether writing \<open>vitamin_data.json\<close> succeeds\<close>
  send_ok :: bool    \<comment> \<open>whether \<open>bot.send_message\<close> returns rather than raises\<close>

subsection \<open>\<open>VitaminState\<close>\<close>

record VitaminState =
  morning_taken :: bool
  lunch_taken :: bool
  morning_reminder_count :: int
  lunch_reminder_count :: int
  last_reset :: string

definition VitaminState_init :: "env \<Rightarrow> VitaminState" where
  "VitaminState_init e =
     \<lparr> morning_taken = False, lunch_taken = False,
       morning_reminder_count = 0, lunch_reminder_count = 0,
       last_reset = isoformat (now e) \<rparr>"

definition reset_if_new_day :: "env \<Rightarrow> VitaminState \<Rightarrow> VitaminState" where
  "reset_if_new_day e s =
     (let today = isoformat (now e) in
      if today \<noteq> last_reset s
      then s\<lparr> morning_taken := False, lunch_taken := False,
              morning_reminder_count := 0, lunch_reminder_count := 0,
              last_reset := today \<rparr>
      else s)"

subsection \<open>Module globals, the data file, the log and the outgoing messages\<close>

datatype log_entry =
    SaveError            \<comment> \<open>\<open>logger.error\<close> in \<open>save_data\<close>\<close>
  | ReminderError int    \<comment> \<open>\<open>logger.error\<close> in \<open>send_vitamin_reminder\<close>, with the user id\<close>

text \<open>
  The texts passed to \<open>bot.send_message\<close>. The fixed texts are constructors; the final
  reminder carries \<open>vitamins_text\<close>, the only part computed from the state.
\<close>

datatype message =
    MorningFirstMsg
  | MorningSecondMsg
  | LunchFirstBothMsg
  | LunchFirstMsg
  | LunchSecondBothMsg
  | LunchSecondMsg
  | FinalMissingMsg ustr
  | CongratsMsg

record send_record =
  to_chat :: int
  msg :: message
  with_keyboard :: bool   \<comment> \<open>whether \<open>reply_markup\<close> (the Yes/No keyboard) was passed\<close>
  delivered :: bool

record world =
  user_states :: "int \<rightharpoonup> VitaminState"
  registered_users :: "int set"
  data_file :: "((int \<rightharpoonup> VitaminState) \<times> int set) option"
  logged :: "log_entry list"
  sends :: "send_record list"

text \<open>
  \<open>save_data\<close> rewrites the whole file from the two globals; a failure is caught and
  logged and leaves the file as it was.
\<close>

definition save_data :: "env \<Rightarrow> world \<Rightarrow> world" where
  "save_data e w =
     (if disk_ok e
      then w\<lparr> data_file := Some (user_states w, registered_users w) \<rparr>
      else w\<lparr> logged := logged w @ [SaveError] \<rparr>)"

text \<open>
  Handlers hold a reference to the object stored in \<open>user_states\<close>, so an assignment to
  a field of \<open>state\<close> is an update of the stored object.
\<close>

definition set_state :: "int \<Rightarrow> VitaminState \<Rightarrow> world \<Rightarrow> world" where
  "set_state uid s w = w\<lparr> user_states := (user_states w)(uid \<mapsto> s) \<rparr>"

definition get_user_state :: "env \<Rightarrow> int \<Rightarrow> world \<Rightarrow> VitaminState \<times> world" where
  "get_user_state e uid w =
     (let s0 = (case user_states w uid of None \<Rightarrow> VitaminState_init e | Some s \<Rightarrow> s);
          s = reset_if_new_day e s0;
          w' = save_data e (set_state uid s w)
      in (s, w'))"

definition is_weekend :: "env \<Rightarrow> bool" where
  "is_weekend e = (weekday (now e) \<ge> 5)"

subsection \<open>\<open>str.lower()\<close>, \<open>str.strip()\<close> and \<open>str.join()\<close>\<close>

text \<open>
  \<open>str.lower()\<close> on Basic Latin and on the Cyrillic block U+0400..U+045F, where it maps
  code point by code point: A..Z, U+0400..U+040F and U+0410..U+042F go to their small
  letters, everything else there is unchanged. Code points of other scripts are left as
  they are; none of them lowers to a letter of the two reply words or to white space.
\<close>

definition lower_cp :: "nat \<Rightarrow> nat" where
  "lower_cp c =
     (if 65 \<le> c \<and> c \<le> 90 then c + 32
      else if 1024 \<le> c \<and> c \<le> 1039 then c + 80
      else if 1040 \<le> c \<and> c \<le> 1071 then c + 32
      else c)"

definition py_lower :: "ustr \<Rightarrow> ustr" where
  "py_lower t = map lower_cp t"

text \<open>The code points that \<open>str.strip()\<close> without argument removes (\<open>str.isspace\<close>).\<close>

definition is_space :: "nat \<Rightarrow> bool" where
  "is_space c =
     ((9 \<le> c \<and> c \<le> 13) \<or> (28 \<le> c \<and> c \<le> 32) \<or> c = 133 \<or> c = 160 \<or> c = 5760
      \<or> (8192 \<le> c \<and> c \<le> 8202) \<or> c = 8232 \<or> c = 8233 \<or> c = 8239 \<or> c = 8287
      \<or> c = 12288)"

definition py_strip :: "ustr \<Rightarrow> ustr" where
  "py_strip t = rev (dropWhile is_space (rev (dropWhile is_space t)))"

fun join :: "ustr \<Rightarrow> ustr list \<Rightarrow> ustr" where
  "join sep [] = []"
| "join sep [x] = x"
| "join sep (x # y # ys) = x @ sep @ join sep (y # ys)"

text \<open>The literals of the source, as code points.\<close>

definition yes_word :: ustr where    \<comment> \<open>the affirmative reply, U+0434 U+0430\<close>
  "yes_word = [1076, 1072]"

definition no_word :: ustr where     \<comment> \<open>the negative reply, U+043D U+0435 U+0442\<close>
  "no_word = [1085, 1077, 1090]"

definition morning_name :: ustr where   \<comment> \<open>the morning dose with its sunrise sign\<close>
  "morning_name = [1091, 1090, 1088, 1077, 1085, 1085, 1080, 1077, 32, 127749]"

definition lunch_name :: ustr where     \<comment> \<open>the lunch dose with its plate sign\<close>
  "lunch_name = [1086, 1073, 1077, 1076, 1077, 1085, 1085, 1099, 1077, 32, 127869]"

definition and_sep :: ustr where        \<comment> \<open>the Russian "and" between two spaces\<close>
  "and_sep = [32, 1080, 32]"

subsection \<open>The \<open>/reset\<close> command and the text handler\<close>

datatype reply =
    ResetReply
  | MorningAcceptedReply
  | LunchAcceptedReply
  | AllTakenReply
  | RemindLaterReply
  | HelpReply

definition reset :: "env \<Rightarrow> int \<Rightarrow> world \<Rightarrow> reply \<times> world" where
  "reset e uid w =
     (let (state, w1) = get_user_state e uid w;
          state' = state\<lparr> morning_taken := False, lunch_taken := False,
                          morning_reminder_count := 0, lunch_reminder_count := 0 \<rparr>;
          w2 = save_data e (set_state uid state' w1)
      in (ResetReply, w2))"

definition handle_response :: "env \<Rightarrow> int \<Rightarrow> ustr \<Rightarrow> world \<Rightarrow> reply \<times> world" where
  "handle_response e uid txt w =
     (let (state, w1) = get_user_state e uid w;
          t = py_strip (py_lower txt)
      in if t = yes_word then
           (if \<not> morning_taken state then
              (MorningAcceptedReply, save_data e (set_state uid (state\<lparr> morning_taken := True \<rparr>) w1))
            else if \<not> lunch_taken state then
              (LunchAcceptedReply, save_data e (set_state uid (state\<lparr> lunch_taken := True \<rparr>) w1))
            else (AllTakenReply, w1))
         else if t = no_word then (RemindLaterReply, w1)
         else (HelpReply, w1))"

subsection \<open>The reminder job\<close>

text \<open>
  \<open>bot.send_message\<close> either returns or raises. A raise leaves the \<open>try\<close> block at once:
  the statements after the call are skipped, and whatever was assigned before stays.
  \<open>Raised\<close> carries the world at the raise.
\<close>

datatype attempt = Returned world | Raised world

definition send_message :: "env \<Rightarrow> int \<Rightarrow> message \<Rightarrow> bool \<Rightarrow> world \<Rightarrow> attempt" where
  "send_message e chat m kb w =
     (let w' = w\<lparr> sends := sends w @
                  [\<lparr> to_chat = chat, msg = m, with_keyboard = kb, delivered = send_ok e \<rparr>] \<rparr>
      in if send_ok e then Returned w' else Raised w')"

definition and_then :: "attempt \<Rightarrow> (world \<Rightarrow> attempt) \<Rightarrow> attempt" where
  "and_then a f = (case a of Returned w \<Rightarrow> f w | Raised w \<Rightarrow> Raised w)"

text \<open>The body of the \<open>try\<close> block, up to (not including) the closing \<open>save_data()\<close>.\<close>

definition reminder_body :: "env \<Rightarrow> int \<Rightarrow> string \<Rightarrow> VitaminState \<Rightarrow> world \<Rightarrow> attempt" where
  "reminder_body e uid reminder_type state w =
     (if reminder_type = ''morning_first'' then
        (if \<not> morning_taken state then
           and_then (send_message e uid MorningFirstMsg True w)
             (\<lambda>w'. Returned (set_state uid (state\<lparr> morning_reminder_count := 1 \<rparr>) w'))
         else Returned w)
      else if reminder_type = ''morning_second'' then
        (if \<not> morning_taken state then
           and_then (send_message e uid MorningSecondMsg True w)
             (\<lambda>w'. Returned (set_state uid (state\<lparr> morning_reminder_count := 2 \<rparr>) w'))
         else Returned w)
      else if reminder_type = ''lunch_first'' then
        and_then
          (if \<not> morning_taken state \<and> \<not> lunch_taken state then
             send_message e uid LunchFirstBothMsg True w
           else if \<not> lunch_taken state then
             send_message e uid LunchFirstMsg True w
           else Returned w)
          (\<lambda>w'. Returned (set_state uid (state\<lparr> lunch_reminder_count := 1 \<rparr>) w'))
      else if reminder_type = ''lunch_second'' then
        (if \<not> morning_taken state \<and> \<not> lunch_taken state then
           send_message e uid LunchSecondBothMsg True w
         else if \<not> lunch_taken state then
           send_message e uid LunchSecondMsg True w
         else Returned w)
      else if reminder_type = ''final'' then
        (let messages = (if \<not> morning_taken state then [morning_name] else [])
                          @ (if \<not> lunch_taken state then [lunch_name] else [])
         in if messages \<noteq> [] then
              send_message e uid (FinalMissingMsg (join and_sep messages)) True w
            else send_message e uid CongratsMsg False w)
      else Returned w)"

definition send_vitamin_reminder :: "env \<Rightarrow> int \<Rightarrow> string \<Rightarrow> world \<Rightarrow> world" where
  "send_vitamin_reminder e uid reminder_type w =
     (let (state, w1) = get_user_state e uid w
      in case reminder_body e uid reminder_type state w1 of
           Returned w2 \<Rightarrow> save_data e w2
         | Raised w2 \<Rightarrow> w2\<lparr> logged := logged w2 @ [ReminderError uid] \<rparr>)"

subsection \<open>The job queue\<close>

text \<open>
  A job of the queue as \<open>run_daily\<close> creates it. \<open>get_jobs_by_name\<close> returns the jobs
  whose name equals the given one; \<open>schedule_removal\<close> takes a job out of the queue.
\<close>

record job =
  job_name :: string
  chat_id :: int
  job_type :: string         \<comment> \<open>\<open>data['type']\<close>\<close>
  job_time :: "nat \<times> nat"     \<comment> \<open>hour and minute\<close>
  job_days :: "nat list"

definition get_jobs_by_name :: "job list \<Rightarrow> string \<Rightarrow> job list" where
  "get_jobs_by_name jq n = filter (\<lambda>j. job_name j = n) jq"

definition schedule_removal :: "job \<Rightarrow> job list \<Rightarrow> job list" where
  "schedule_removal j jq = filter (\<lambda>j'. j' \<noteq> j) jq"

definition run_daily :: "nat \<times> nat \<Rightarrow> nat list \<Rightarrow> int \<Rightarrow> string \<Rightarrow> string \<Rightarrow> job list \<Rightarrow> job list" where
  "run_daily t ds chat ty n jq =
     jq @ [\<lparr> job_name = n, chat_id = chat, job_type = ty, job_time = t, job_days = ds \<rparr>]"

definition times_weekday :: "(string \<times> nat \<times> nat) list" where
  "times_weekday =
     [(''morning_first'', 12, 20), (''morning_second'', 12, 40), (''lunch_first'', 15, 0),
      (''lunch_second'', 15, 20), (''final'', 17, 45)]"

definition times_weekend :: "(string \<times> nat \<times> nat) list" where
  "times_weekend =
     [(''morning_first'', 13, 20), (''morning_second'', 13, 40), (''lunch_first'', 16, 0),
      (''lunch_second'', 16, 20), (''final'', 18, 45)]"

definition schedule_daily_reminders :: "int \<Rightarrow> job list \<Rightarrow> job list" where
  "schedule_daily_reminders uid jq =
     (let current_jobs = get_jobs_by_name jq (''morning_first_'' @ str_int uid);
          jq1 = fold schedule_removal current_jobs jq;
          jq2 = fold (\<lambda>(reminder_type, reminder_time).
                   run_daily reminder_time [0, 1, 2, 3, 4] uid reminder_type
                     (reminder_type @ ''_'' @ str_int uid @ ''_weekday''))
                  times_weekday jq1;
          jq3 = fold (\<lambda>(reminder_type, reminder_time).
                   run_daily reminder_time [5, 6] uid reminder_type
                     (reminder_type @ ''_'' @ str_int uid @ ''_weekend''))
                  times_weekend jq2
      in jq3)"

text \<open>The recurring triggers of one user: the jobs of the queue addressed to that chat.\<close>

definition jobs_of :: "int \<Rightarrow> job list \<Rightarrow> job list" where
  "jobs_of uid jq = filter (\<lambda>j. chat_id j = uid) jq"

subsection \<open>Example inputs\<close>

text \<open>
  Saturday 7 November 2026; an environment whose disk works and whose send succeeds or
  fails as told; a state with given flags and date and zero counters; a world that knows
  user 7 only.
\<close>

definition example_day :: pydate where
  "example_day = \<lparr> year = 2026, month = 11, day = 7 \<rparr>"

definition example_env :: "bool \<Rightarrow> env" where
  "example_env ok = \<lparr> now = example_day, disk_ok = True, send_ok = ok \<rparr>"

definition example_state :: "bool \<Rightarrow> bool \<Rightarrow> string \<Rightarrow> VitaminState" where
  "example_state m l d =
     \<lparr> morning_taken = m, lunch_taken = l,
       morning_reminder_count = 0, lunch_reminder_count = 0, last_reset = d \<rparr>"

definition example_world :: "VitaminState \<Rightarrow> world" where
  "example_world s =
     \<lparr> user_states = [7 \<mapsto> s], registered_users = {7}, data_file = None,
       logged = [], sends = [] \<rparr>"

section \<open>Day rollover\<close>

lemma reset_if_new_day_last_reset:
  "last_reset (reset_if_new_day e s) = isoformat (now e)"
  by (simp add: reset_if_new_day_def Let_def)

lemma reset_if_new_day_idem:
  "reset_if_new_day e (reset_if_new_day e s) = reset_if_new_day e s"
  by (simp add: reset_if_new_day_def Let_def)

lemma get_user_state_stored:
  "user_states (snd (get_user_state e uid w)) = (user_states w)(uid \<mapsto> fst (get_user_state e uid w))"
  by (simp add: get_user_state_def Let_def save_data_def set_state_def)

lemma get_user_state_fst_fresh:
  "reset_if_new_day e (fst (get_user_state e uid w)) = fst (get_user_state e uid w)"
  by (simp add: get_user_state_def Let_def reset_if_new_day_idem)

lemma reset_if_new_day_same_date:
  "now e' = now e \<Longrightarrow> reset_if_new_day e' (reset_if_new_day e s) = reset_if_new_day e s"
  by (simp add: reset_if_new_day_def Let_def)

text \<open>
  C5. Rollover is idempotent. Applying the rollover check a second time on the same
  calendar date changes nothing; a second call of the accessor \<open>get_user_state\<close> on the
  same date returns the state the first call returned (so \<open>last_reset\<close>, both flags and
  both counters are the same) and leaves every stored state as the first call left it.
\<close>

theorem rollover_idempotent:
  assumes "now e' = now e"
  shows "reset_if_new_day e' (reset_if_new_day e s) = reset_if_new_day e s
       \<and> fst (get_user_state e' uid (snd (get_user_state e uid w))) = fst (get_user_state e uid w)
       \<and> user_states (snd (get_user_state e' uid (snd (get_user_state e uid w))))
           = user_states (snd (get_user_state e uid w))"
proof -
  have same: "reset_if_new_day e' (reset_if_new_day e t) = reset_if_new_day e t" for t
    using assms by (rule reset_if_new_day_same_date)
  have ret: "fst (get_user_state e' uid (snd (get_user_state e uid w))) = fst (get_user_state e uid w)"
    by (simp add: get_user_state_def Let_def save_data_def set_state_def same)
  have "user_states (snd (get_user_state e' uid (snd (get_user_state e uid w))))
          = (user_states (snd (get_user_state e uid w)))(uid \<mapsto> fst (get_user_state e uid w))"
    by (simp only: get_user_state_stored ret)
  also have "\<dots> = user_states (snd (get_user_state e uid w))"
    by (simp add: get_user_state_stored)
  finally show ?thesis using same ret by simp
qed

lemma isoformat_example_day: "isoformat example_day = ''2026-11-07''"
  by (simp add: example_day_def isoformat_def zfill_def str_nat.simps digit_char_def)

theorem rollover_idempotent_witness:
  "now (example_env False) = now (example_env True)
   \<and> reset_if_new_day (example_env False)
         (reset_if_new_day (example_env True) (example_state True True ''2026-11-06''))
       = reset_if_new_day (example_env True) (example_state True True ''2026-11-06'')
   \<and> fst (get_user_state (example_env False) 7
          (snd (get_user_state (example_env True) 7
             (example_world (example_state True True ''2026-11-06'')))))
       = fst (get_user_state (example_env True) 7
             (example_world (example_state True True ''2026-11-06'')))
   \<and> user_states (snd (get_user_state (example_env False) 7
          (snd (get_user_state (example_env True) 7
             (example_world (example_state True True ''2026-11-06''))))))
       = user_states (snd (get_user_state (example_env True) 7
             (example_world (example_state True True ''2026-11-06''))))"
proof -
  have h: "now (example_env False) = now (example_env True)"
    by (simp add: example_env_def)
  show ?thesis
    using h rollover_idempotent [OF h, of "example_state True True ''2026-11-06''" 7
      "example_world (example_state True True ''2026-11-06'')"]
    by simp
qed

text \<open>
  C6. On a new day the rollover check clears everything. Whenever today's ISO date
  differs from \<open>last_reset\<close>, the state after \<open>reset_if_new_day\<close> has both flags false,
  both counters 0 and \<open>last_reset\<close> equal to today, whatever the fields held before; and
  that is the state the accessor returns and stores for a user whose stored state is of
  another day.
\<close>

theorem rollover_new_day_clears:
  assumes "isoformat (now e) \<noteq> last_reset s"
  shows "reset_if_new_day e s =
           \<lparr> morning_taken = False, lunch_taken = False,
             morning_reminder_count = 0, lunch_reminder_count = 0,
             last_reset = isoformat (now e) \<rparr>
       \<and> (user_states w uid = Some s \<longrightarrow>
            fst (get_user_state e uid w) = reset_if_new_day e s
            \<and> user_states (snd (get_user_state e uid w)) uid = Some (reset_if_new_day e s))"
  using assms
  by (simp add: reset_if_new_day_def Let_def get_user_state_def save_data_def set_state_def)

theorem rollover_new_day_clears_witness:
  "isoformat (now (example_env True)) \<noteq> last_reset (example_state True True ''2026-11-06'')
   \<and> reset_if_new_day (example_env True) (example_state True True ''2026-11-06'')
       = example_state False False ''2026-11-07''
   \<and> user_states (example_world (example_state True True ''2026-11-06'')) 7
       = Some (example_state True True ''2026-11-06'')
   \<and> fst (get_user_state (example_env True) 7
          (example_world (example_state True True ''2026-11-06'')))
       = example_state False False ''2026-11-07''"
proof -
  have d: "isoformat (now (example_env True)) = ''2026-11-07''"
    by (simp add: example_env_def isoformat_example_day)
  have h: "isoformat (now (example_env True)) \<noteq> last_reset (example_state True True ''2026-11-06'')"
    by (simp add: d example_state_def)
  have st: "user_states (example_world (example_state True True ''2026-11-06'')) 7
              = Some (example_state True True ''2026-11-06'')"
    by (simp add: example_world_def)
  show ?thesis
    using h st rollover_new_day_clears [OF h,
      of "example_world (example_state True True ''2026-11-06'')" 7]
    by (simp add: d example_state_def)
qed

section \<open>Day type\<close>

text \<open>
  C8. For every date, \<open>is_weekend\<close> holds if and only if the date's ISO weekday is 6 or 7
  (Saturday or Sunday); on every other date it answers weekday.
\<close>

theorem is_weekend_iff_iso_6_7:
  "is_weekend e = (isoweekday (now e) = 6 \<or> isoweekday (now e) = 7)"
  unfolding is_weekend_def weekday_def isoweekday_def by presburger

lemma weekday_example_day: "weekday example_day = 5"
  by (simp add: example_day_def weekday_def toordinal_def days_before_year_def
      days_before_month_def is_leap_def)

theorem is_weekend_iff_iso_6_7_witness:
  "is_weekend (example_env True)
   \<and> (isoweekday (now (example_env True)) = 6 \<or> isoweekday (now (example_env True)) = 7)"
proof -
  have w: "is_weekend (example_env True)"
    by (simp add: is_weekend_def example_env_def weekday_example_day)
  show ?thesis using w is_weekend_iff_iso_6_7 [of "example_env True"] by blast
qed

section \<open>Installing the schedule\<close>

lemma install_appends:
  "get_jobs_by_name jq (''morning_first_'' @ str_int uid) = [] \<Longrightarrow>
   schedule_daily_reminders uid jq = jq @ schedule_daily_reminders uid []"
  by (simp add: schedule_daily_reminders_def Let_def get_jobs_by_name_def
      run_daily_def times_weekday_def times_weekend_def)

lemma installed_names:
  "get_jobs_by_name (schedule_daily_reminders uid []) (''morning_first_'' @ str_int uid) = []"
  by (simp add: schedule_daily_reminders_def Let_def get_jobs_by_name_def
      run_daily_def times_weekday_def times_weekend_def)

lemma installed_count: "length (jobs_of uid (schedule_daily_reminders uid [])) = 10"
  by (simp add: schedule_daily_reminders_def Let_def get_jobs_by_name_def
      run_daily_def times_weekday_def times_weekend_def jobs_of_def)

text \<open>
  C1. The claim is that installing twice leaves 10 triggers for the user. The code looks
  for old jobs under the name \<open>morning_first_<user_id>\<close>, a name no job ever gets (every
  job is named \<open><type>_<user_id>_weekday\<close> or \<open><type>_<user_id>_weekend\<close>), so nothing
  is removed: for every user id, two installs on an empty queue leave 20 jobs for that
  user.
\<close>

theorem install_twice_leaves_twenty:
  "length (jobs_of uid (schedule_daily_reminders uid (schedule_daily_reminders uid []))) = 20"
proof -
  have "schedule_daily_reminders uid (schedule_daily_reminders uid [])
          = schedule_daily_reminders uid [] @ schedule_daily_reminders uid []"
    by (rule install_appends) (rule installed_names)
  then have "jobs_of uid (schedule_daily_reminders uid (schedule_daily_reminders uid []))
          = jobs_of uid (schedule_daily_reminders uid [])
              @ jobs_of uid (schedule_daily_reminders uid [])"
    by (simp add: jobs_of_def)
  then show ?thesis by (simp add: installed_count)
qed

section \<open>The reminder job\<close>

lemma user_states_save_data: "user_states (save_data e w) = user_states w"
  by (simp add: save_data_def)

lemma sends_save_data: "sends (save_data e w) = sends w"
  by (simp add: save_data_def)

lemma data_file_save_data:
  "disk_ok e \<Longrightarrow>
   data_file (save_data e w) = Some (user_states (save_data e w), registered_users (save_data e w))"
  by (simp add: save_data_def)

lemma sends_get_user_state: "sends (snd (get_user_state e uid w)) = sends w"
  by (simp add: get_user_state_def Let_def save_data_def set_state_def)

lemma data_file_get_user_state:
  "disk_ok e \<Longrightarrow>
   data_file (snd (get_user_state e uid w))
     = Some (user_states (snd (get_user_state e uid w)),
             registered_users (snd (get_user_state e uid w)))"
  by (simp add: get_user_state_def Let_def save_data_def set_state_def)

lemma send_message_cases:
  "send_message e chat m kb w =
     (if send_ok e
      then Returned (w\<lparr> sends := sends w @
             [\<lparr> to_chat = chat, msg = m, with_keyboard = kb, delivered = True \<rparr>] \<rparr>)
      else Raised (w\<lparr> sends := sends w @
             [\<lparr> to_chat = chat, msg = m, with_keyboard = kb, delivered = False \<rparr>] \<rparr>))"
  by (simp add: send_message_def Let_def)

text \<open>
  What the \<open>try\<close> body can do: it returns after at most one send, which then succeeded;
  or it raises, after exactly one send that failed and before any assignment.
\<close>

lemma reminder_body_effect:
  "(case reminder_body e uid rt st wa of
      Returned w2 \<Rightarrow>
        length (sends w2) \<le> Suc (length (sends wa)) \<and> (sends w2 \<noteq> sends wa \<longrightarrow> send_ok e)
    | Raised w2 \<Rightarrow>
        \<not> send_ok e \<and> user_states w2 = user_states wa \<and> logged w2 = logged wa
        \<and> registered_users w2 = registered_users wa \<and> data_file w2 = data_file wa
        \<and> length (sends w2) = Suc (length (sends wa)))"
  unfolding reminder_body_def send_message_cases and_then_def Let_def set_state_def
  by simp

lemmas run_reminder_example =
  send_vitamin_reminder_def get_user_state_def reset_if_new_day_def Let_def
  reminder_body_def send_message_cases and_then_def set_state_def save_data_def
  example_env_def example_world_def example_state_def isoformat_example_day

text \<open>
  C2, as the code has it. The state is persisted on every branch: when the disk write
  works, the data file after the handler holds the handler's final state, whatever the
  reminder type, the state and the outcome of the send. At most one send is attempted per
  firing (no retry). When a send is attempted and fails, the failure is caught and logged,
  and the state stays as the rollover accessor left it: the counter assignment of the
  branch comes after the send and is skipped.
\<close>

theorem reminder_persists_and_failed_send_skips_update:
  "(disk_ok e \<longrightarrow> data_file (send_vitamin_reminder e uid rt w)
        = Some (user_states (send_vitamin_reminder e uid rt w),
                registered_users (send_vitamin_reminder e uid rt w)))
   \<and> length (sends (send_vitamin_reminder e uid rt w)) \<le> Suc (length (sends w))
   \<and> (\<not> send_ok e \<and> sends (send_vitamin_reminder e uid rt w) \<noteq> sends w \<longrightarrow>
         user_states (send_vitamin_reminder e uid rt w) = user_states (snd (get_user_state e uid w))
         \<and> logged (send_vitamin_reminder e uid rt w)
                = logged (snd (get_user_state e uid w)) @ [ReminderError uid])"
proof -
  obtain st w1 where g: "get_user_state e uid w = (st, w1)" by (cases "get_user_state e uid w")
  have s1: "sends w1 = sends w" using sends_get_user_state [of e uid w] g by simp
  have d1: "disk_ok e \<Longrightarrow> data_file w1 = Some (user_states w1, registered_users w1)"
    using data_file_get_user_state [of e uid w] g by simp
  show ?thesis
  proof (cases "reminder_body e uid rt st w1")
    case (Returned w2)
    have r: "send_vitamin_reminder e uid rt w = save_data e w2"
      by (simp add: send_vitamin_reminder_def g Returned)
    have "length (sends w2) \<le> Suc (length (sends w1)) \<and> (sends w2 \<noteq> sends w1 \<longrightarrow> send_ok e)"
      using reminder_body_effect [where e=e and uid=uid and rt=rt and st=st and wa=w1]
      by (simp add: Returned)
    then show ?thesis
      by (auto simp add: r s1 g data_file_save_data sends_save_data)
  next
    case (Raised w2)
    have r: "send_vitamin_reminder e uid rt w = w2\<lparr> logged := logged w2 @ [ReminderError uid] \<rparr>"
      by (simp add: send_vitamin_reminder_def g Raised)
    have "\<not> send_ok e \<and> user_states w2 = user_states w1 \<and> logged w2 = logged w1
        \<and> registered_users w2 = registered_users w1 \<and> data_file w2 = data_file w1
        \<and> length (sends w2) = Suc (length (sends w1))"
      using reminder_body_effect [where e=e and uid=uid and rt=rt and st=st and wa=w1]
      by (simp add: Raised)
    then show ?thesis using d1
      by (simp add: r s1 g)
  qed
qed

theorem reminder_persists_and_failed_send_skips_update_witness:
  "disk_ok (example_env False) \<and> \<not> send_ok (example_env False)
   \<and> sends (send_vitamin_reminder (example_env False) 7 ''morning_first''
        (example_world (example_state False False ''2026-11-07'')))
       \<noteq> sends (example_world (example_state False False ''2026-11-07''))
   \<and> data_file (send_vitamin_reminder (example_env False) 7 ''morning_first''
        (example_world (example_state False False ''2026-11-07'')))
       = Some (user_states (send_vitamin_reminder (example_env False) 7 ''morning_first''
                 (example_world (example_state False False ''2026-11-07''))),
               registered_users (send_vitamin_reminder (example_env False) 7 ''morning_first''
                 (example_world (example_state False False ''2026-11-07''))))
   \<and> user_states (send_vitamin_reminder (example_env False) 7 ''morning_first''
        (example_world (example_state False False ''2026-11-07'')))
       = user_states (snd (get_user_state (example_env False) 7
           (example_world (example_state False False ''2026-11-07''))))
   \<and> logged (send_vitamin_reminder (example_env False) 7 ''morning_first''
        (example_world (example_state False False ''2026-11-07'')))
       = logged (snd (get_user_state (example_env False) 7
           (example_world (example_state False False ''2026-11-07'')))) @ [ReminderError 7]"
proof -
  have h1: "disk_ok (example_env False)" and h2: "\<not> send_ok (example_env False)"
    by (simp_all add: example_env_def)
  have h3: "sends (send_vitamin_reminder (example_env False) 7 ''morning_first''
        (example_world (example_state False False ''2026-11-07'')))
       \<noteq> sends (example_world (example_state False False ''2026-11-07''))"
    by (simp add: run_reminder_example)
  show ?thesis
    using h1 h2 h3
      reminder_persists_and_failed_send_skips_update [of "example_env False" 7 "''morning_first''"
        "example_world (example_state False False ''2026-11-07'')"]
    by blast
qed

text \<open>
  C2 as stated fails: the \<open>morning_first\<close> reminder for a user who has taken nothing today
  leaves \<open>morning_reminder_count\<close> at 0 when the send fails and sets it to 1 when the send
  succeeds, so the state after a failed send is not the state after a successful one.
\<close>

theorem failed_send_state_differs:
  "map_option morning_reminder_count
     (user_states (send_vitamin_reminder (example_env False) 7 ''morning_first''
        (example_world (example_state False False ''2026-11-07''))) 7) = Some 0
   \<and> map_option morning_reminder_count
     (user_states (send_vitamin_reminder (example_env True) 7 ''morning_first''
        (example_world (example_state False False ''2026-11-07''))) 7) = Some 1"
  by (simp add: run_reminder_example)

text \<open>
  C3, as the code has it. With \<open>st\<close> the state the rollover accessor returns: when
  \<open>lunch_first\<close> fires, \<open>lunch_reminder_count\<close> becomes 1 if lunch is already taken
  (nothing is sent) or the send succeeds, and the state is left as it is if the send
  fails; when \<open>morning_first\<close> or \<open>morning_second\<close> fires, \<open>morning_reminder_count\<close>
  becomes 1 resp. 2 only if the morning dose is not taken and the send succeeds. Nothing
  else of the state changes.
\<close>

theorem reminder_counter_updates:
  "user_states (send_vitamin_reminder e uid ''lunch_first'' w) uid
        = Some (if lunch_taken (fst (get_user_state e uid w)) \<or> send_ok e
                then (fst (get_user_state e uid w))\<lparr> lunch_reminder_count := 1 \<rparr>
                else fst (get_user_state e uid w))
   \<and> user_states (send_vitamin_reminder e uid ''morning_first'' w) uid
        = Some (if \<not> morning_taken (fst (get_user_state e uid w)) \<and> send_ok e
                then (fst (get_user_state e uid w))\<lparr> morning_reminder_count := 1 \<rparr>
                else fst (get_user_state e uid w))
   \<and> user_states (send_vitamin_reminder e uid ''morning_second'' w) uid
        = Some (if \<not> morning_taken (fst (get_user_state e uid w)) \<and> send_ok e
                then (fst (get_user_state e uid w))\<lparr> morning_reminder_count := 2 \<rparr>
                else fst (get_user_state e uid w))"
proof -
  obtain st w1 where g: "get_user_state e uid w = (st, w1)" by (cases "get_user_state e uid w")
  have u: "user_states w1 uid = Some st"
    using get_user_state_stored [of e uid w] g by simp
  show ?thesis
    by (simp add: send_vitamin_reminder_def g reminder_body_def send_message_cases and_then_def
        set_state_def user_states_save_data u)
qed

theorem reminder_counter_updates_witness:
  "map_option lunch_reminder_count
     (user_states (send_vitamin_reminder (example_env False) 7 ''lunch_first''
        (example_world (example_state True True ''2026-11-07''))) 7) = Some 1
   \<and> map_option morning_reminder_count
     (user_states (send_vitamin_reminder (example_env False) 7 ''morning_first''
        (example_world (example_state True True ''2026-11-07''))) 7) = Some 0"
proof -
  have g: "fst (get_user_state (example_env False) 7
             (example_world (example_state True True ''2026-11-07'')))
           = example_state True True ''2026-11-07''"
    by (simp add: run_reminder_example)
  note th = reminder_counter_updates [of "example_env False" 7
        "example_world (example_state True True ''2026-11-07'')", unfolded g]
  show ?thesis
    by (simp only: th) (simp add: example_state_def example_env_def)
qed

text \<open>
  C3 as stated fails: \<open>lunch_first\<close> fires for a user who has taken the morning dose but
  not the lunch dose, the send fails, and \<open>lunch_reminder_count\<close> stays 0.
\<close>

theorem lunch_first_failed_send_leaves_counter:
  "map_option lunch_reminder_count
     (user_states (send_vitamin_reminder (example_env False) 7 ''lunch_first''
        (example_world (example_state True False ''2026-11-07''))) 7) = Some 0"
  by (simp add: run_reminder_example)

text \<open>
  C4. When \<open>final\<close> fires, exactly one message is handed to the notifier, chosen by the
  state the rollover accessor returns: the congratulation (without keyboard, no dose
  named) if both doses are taken; otherwise the last reminder whose dose list is the
  names of the doses not taken, joined with "and": the morning dose alone, the lunch dose
  alone, or morning "and" lunch.
\<close>

theorem final_message_variant:
  "sends (send_vitamin_reminder e uid ''final'' w) =
     sends w @ [\<lparr> to_chat = uid,
        msg = (let st = fst (get_user_state e uid w) in
               if morning_taken st \<and> lunch_taken st then CongratsMsg
               else if lunch_taken st then FinalMissingMsg morning_name
               else if morning_taken st then FinalMissingMsg lunch_name
               else FinalMissingMsg (morning_name @ and_sep @ lunch_name)),
        with_keyboard = (\<not> (morning_taken (fst (get_user_state e uid w))
                             \<and> lunch_taken (fst (get_user_state e uid w)))),
        delivered = send_ok e \<rparr>]"
  by (simp add: send_vitamin_reminder_def reminder_body_def send_message_def Let_def split_def
      get_user_state_def set_state_def sends_save_data)

theorem final_message_variant_witness:
  "sends (send_vitamin_reminder (example_env True) 7 ''final''
      (example_world (example_state False True ''2026-11-07'')))
     = [\<lparr> to_chat = 7, msg = FinalMissingMsg morning_name, with_keyboard = True,
          delivered = True \<rparr>]
   \<and> sends (send_vitamin_reminder (example_env True) 7 ''final''
      (example_world (example_state True True ''2026-11-07'')))
     = [\<lparr> to_chat = 7, msg = CongratsMsg, with_keyboard = False, delivered = True \<rparr>]"
proof -
  have g: "fst (get_user_state (example_env True) 7
             (example_world (example_state m l ''2026-11-07'')))
           = example_state m l ''2026-11-07''" for m l
    by (simp add: run_reminder_example)
  note th1 = final_message_variant [of "example_env True" 7
        "example_world (example_state False True ''2026-11-07'')", unfolded g]
  note th2 = final_message_variant [of "example_env True" 7
        "example_world (example_state True True ''2026-11-07'')", unfolded g]
  show ?thesis
    by (simp only: th1 th2) (simp add: example_state_def example_env_def example_world_def)
qed

section \<open>The \<open>/reset\<close> command\<close>

lemma get_user_state_last_reset:
  "last_reset (fst (get_user_state e uid w)) = isoformat (now e)"
  by (simp add: get_user_state_def Let_def reset_if_new_day_last_reset)

lemma get_user_state_current:
  "user_states w uid = Some s \<Longrightarrow> last_reset s = isoformat (now e) \<Longrightarrow>
   fst (get_user_state e uid w) = s \<and> user_states (snd (get_user_state e uid w)) = user_states w"
  by (auto simp: get_user_state_def Let_def reset_if_new_day_def save_data_def set_state_def)

text \<open>
  C9, as the code has it. The \<open>/reset\<close> command calls the rollover accessor first, as
  every handler does, and then clears both flags and both counters without assigning
  \<open>last_reset\<close>. So the stored state afterwards has flags false, counters 0 and
  \<open>last_reset\<close> equal to today: \<open>last_reset\<close> is left as it was stored exactly when the
  stored state is already of today, and is advanced to today by the rollover check
  otherwise.
\<close>

theorem reset_command_effect:
  "user_states (snd (reset e uid w)) uid =
     Some \<lparr> morning_taken = False, lunch_taken = False, morning_reminder_count = 0,
            lunch_reminder_count = 0, last_reset = isoformat (now e) \<rparr>
   \<and> (user_states w uid = Some s \<longrightarrow>
        (map_option last_reset (user_states (snd (reset e uid w)) uid) = Some (last_reset s))
          = (last_reset s = isoformat (now e)))"
proof -
  have 1: "user_states (snd (reset e uid w)) uid =
     Some \<lparr> morning_taken = False, lunch_taken = False, morning_reminder_count = 0,
            lunch_reminder_count = 0, last_reset = isoformat (now e) \<rparr>"
    using get_user_state_last_reset [of e uid w]
    by (simp add: reset_def split_def Let_def set_state_def user_states_save_data)
  show ?thesis by (auto simp add: 1)
qed

theorem reset_command_effect_witness:
  "user_states (example_world (example_state True True ''2026-11-07'')) 7
     = Some (example_state True True ''2026-11-07'')
   \<and> last_reset (example_state True True ''2026-11-07'') = isoformat (now (example_env True))
   \<and> user_states (snd (reset (example_env True) 7
         (example_world (example_state True True ''2026-11-07'')))) 7
     = Some (example_state False False ''2026-11-07'')
   \<and> map_option last_reset (user_states (snd (reset (example_env True) 7
         (example_world (example_state True True ''2026-11-07'')))) 7)
     = Some (last_reset (example_state True True ''2026-11-07''))"
proof -
  have h1: "user_states (example_world (example_state True True ''2026-11-07'')) 7
     = Some (example_state True True ''2026-11-07'')"
    by (simp add: example_world_def)
  have h2: "last_reset (example_state True True ''2026-11-07'') = isoformat (now (example_env True))"
    by (simp add: example_state_def example_env_def isoformat_example_day)
  have d: "isoformat (now (example_env True)) = ''2026-11-07''"
    by (simp add: example_env_def isoformat_example_day)
  note th = reset_command_effect [of "example_env True" 7
      "example_world (example_state True True ''2026-11-07'')"
      "example_state True True ''2026-11-07''"]
  have c1: "user_states (snd (reset (example_env True) 7
         (example_world (example_state True True ''2026-11-07'')))) 7
     = Some (example_state False False ''2026-11-07'')"
    using th by (simp add: d example_state_def)
  have c2: "map_option last_reset (user_states (snd (reset (example_env True) 7
         (example_world (example_state True True ''2026-11-07'')))) 7)
     = Some (last_reset (example_state True True ''2026-11-07''))"
    using th h1 h2 by blast
  show ?thesis using h1 h2 c1 c2 by blast
qed

text \<open>
  C9 as stated fails: a user whose stored state is of 6 November sends \<open>/reset\<close> on
  7 November, and the stored \<open>last_reset\<close> goes from 6 November to 7 November.
\<close>

theorem reset_advances_stale_date:
  "map_option last_reset
     (user_states (example_world (example_state True True ''2026-11-06'')) 7)
     = Some ''2026-11-06''
   \<and> map_option last_reset
     (user_states (snd (reset (example_env True) 7
        (example_world (example_state True True ''2026-11-06'')))) 7)
     = Some ''2026-11-07''"
  by (simp add: reset_def split_def run_reminder_example)

section \<open>Replies of the user\<close>

lemma handle_response_effect:
  "fst (handle_response e uid txt w) =
     (let st = fst (get_user_state e uid w); t = py_strip (py_lower txt) in
      if t = yes_word then
        (if \<not> morning_taken st then MorningAcceptedReply
         else if \<not> lunch_taken st then LunchAcceptedReply
         else AllTakenReply)
      else if t = no_word then RemindLaterReply
      else HelpReply)
   \<and> user_states (snd (handle_response e uid txt w)) =
     (let st = fst (get_user_state e uid w); t = py_strip (py_lower txt) in
      (user_states w)(uid \<mapsto>
        (if t = yes_word \<and> \<not> morning_taken st then st\<lparr> morning_taken := True \<rparr>
         else if t = yes_word \<and> \<not> lunch_taken st then st\<lparr> lunch_taken := True \<rparr>
         else st)))"
proof -
  obtain st w1 where g: "get_user_state e uid w = (st, w1)" by (cases "get_user_state e uid w")
  have u: "user_states w1 = (user_states w)(uid \<mapsto> st)"
    using get_user_state_stored [of e uid w] g by simp
  show ?thesis
    by (simp add: handle_response_def g Let_def set_state_def user_states_save_data u)
qed

text \<open>One affirmative reply on a state of today whose flags are known.\<close>

lemma affirmative_step:
  assumes y: "py_strip (py_lower txt) = yes_word"
    and s: "user_states w uid = Some s" and d: "last_reset s = isoformat (now e)"
  shows "fst (handle_response e uid txt w) =
           (if \<not> morning_taken s then MorningAcceptedReply
            else if \<not> lunch_taken s then LunchAcceptedReply else AllTakenReply)
       \<and> user_states (snd (handle_response e uid txt w)) =
           (user_states w)(uid \<mapsto>
              (if \<not> morning_taken s then s\<lparr> morning_taken := True \<rparr>
               else if \<not> lunch_taken s then s\<lparr> lunch_taken := True \<rparr> else s))"
proof -
  have g: "fst (get_user_state e uid w) = s"
    using get_user_state_current [OF s d] by simp
  show ?thesis
    using handle_response_effect [of e uid "txt" w] by (simp add: g y Let_def)
qed

lemma three_affirmative_replies:
  assumes d2: "now e2 = now e1" and d3: "now e3 = now e1"
    and y1: "py_strip (py_lower t1) = yes_word" and y2: "py_strip (py_lower t2) = yes_word"
    and y3: "py_strip (py_lower t3) = yes_word"
    and m: "\<not> morning_taken (fst (get_user_state e1 uid w))"
    and l: "\<not> lunch_taken (fst (get_user_state e1 uid w))"
  shows "fst (handle_response e1 uid t1 w) = MorningAcceptedReply
    \<and> user_states (snd (handle_response e1 uid t1 w)) uid
        = Some ((fst (get_user_state e1 uid w))\<lparr> morning_taken := True \<rparr>)
    \<and> fst (handle_response e2 uid t2 (snd (handle_response e1 uid t1 w))) = LunchAcceptedReply
    \<and> user_states (snd (handle_response e2 uid t2 (snd (handle_response e1 uid t1 w)))) uid
        = Some ((fst (get_user_state e1 uid w))\<lparr> morning_taken := True, lunch_taken := True \<rparr>)
    \<and> fst (handle_response e3 uid t3
          (snd (handle_response e2 uid t2 (snd (handle_response e1 uid t1 w))))) = AllTakenReply
    \<and> user_states (snd (handle_response e3 uid t3
          (snd (handle_response e2 uid t2 (snd (handle_response e1 uid t1 w))))))
        = user_states (snd (handle_response e2 uid t2 (snd (handle_response e1 uid t1 w))))"
proof -
  define st where "st = fst (get_user_state e1 uid w)"
  define wA where "wA = snd (handle_response e1 uid t1 w)"
  define wB where "wB = snd (handle_response e2 uid t2 wA)"
  have lr: "last_reset st = isoformat (now e1)"
    by (simp add: st_def get_user_state_last_reset)
  have A: "fst (handle_response e1 uid t1 w) = MorningAcceptedReply
         \<and> user_states wA uid = Some (st\<lparr> morning_taken := True \<rparr>)"
    using handle_response_effect [of e1 uid t1 w] m
    by (simp add: y1 Let_def wA_def st_def)
  have B: "fst (handle_response e2 uid t2 wA) = LunchAcceptedReply
         \<and> user_states wB uid = Some (st\<lparr> morning_taken := True, lunch_taken := True \<rparr>)"
    using affirmative_step [OF y2, of wA uid "st\<lparr> morning_taken := True \<rparr>" e2] A lr d2 l
    by (simp add: wB_def st_def)
  have C: "fst (handle_response e3 uid t3 wB) = AllTakenReply
         \<and> user_states (snd (handle_response e3 uid t3 wB)) = user_states wB"
    using affirmative_step [OF y3, of wB uid "st\<lparr> morning_taken := True, lunch_taken := True \<rparr>" e3]
      B lr d3
    by (simp add: map_upd_triv)
  show ?thesis using A B C by (simp add: wA_def wB_def st_def)
qed

text \<open>
  C7. The text handler, with \<open>st\<close> the state the rollover accessor returns for the user
  and \<open>t\<close> the lowered and stripped text. An affirmative reply sets \<open>morning_taken\<close> if it
  is false (nothing else changes, so \<open>lunch_taken\<close> is as before); else sets \<open>lunch_taken\<close>
  if it is false; else answers "already complete" and changes nothing. A negative reply
  and any other text change nothing: in all these cases the stored state is \<open>st\<close>, and no
  other user's state changes. Three affirmative replies on the same day, starting with
  both flags false, are answered morning accepted, lunch accepted, already complete, and
  the third leaves every stored state as the second left it.
\<close>

theorem affirmative_reply_machine:
  "fst (handle_response e uid txt w) =
     (let st = fst (get_user_state e uid w); t = py_strip (py_lower txt) in
      if t = yes_word then
        (if \<not> morning_taken st then MorningAcceptedReply
         else if \<not> lunch_taken st then LunchAcceptedReply
         else AllTakenReply)
      else if t = no_word then RemindLaterReply
      else HelpReply)
   \<and> user_states (snd (handle_response e uid txt w)) =
     (let st = fst (get_user_state e uid w); t = py_strip (py_lower txt) in
      (user_states w)(uid \<mapsto>
        (if t = yes_word \<and> \<not> morning_taken st then st\<lparr> morning_taken := True \<rparr>
         else if t = yes_word \<and> \<not> lunch_taken st then st\<lparr> lunch_taken := True \<rparr>
         else st)))
   \<and> (now e2 = now e \<and> now e3 = now e
        \<and> py_strip (py_lower txt) = yes_word \<and> py_strip (py_lower t2) = yes_word
        \<and> py_strip (py_lower t3) = yes_word
        \<and> \<not> morning_taken (fst (get_user_state e uid w))
        \<and> \<not> lunch_taken (fst (get_user_state e uid w)) \<longrightarrow>
      fst (handle_response e uid txt w) = MorningAcceptedReply
      \<and> user_states (snd (handle_response e uid txt w)) uid
          = Some ((fst (get_user_state e uid w))\<lparr> morning_taken := True \<rparr>)
      \<and> fst (handle_response e2 uid t2 (snd (handle_response e uid txt w))) = LunchAcceptedReply
      \<and> user_states (snd (handle_response e2 uid t2 (snd (handle_response e uid txt w)))) uid
          = Some ((fst (get_user_state e uid w))\<lparr> morning_taken := True, lunch_taken := True \<rparr>)
      \<and> fst (handle_response e3 uid t3
            (snd (handle_response e2 uid t2 (snd (handle_response e uid txt w))))) = AllTakenReply
      \<and> user_states (snd (handle_response e3 uid t3
            (snd (handle_response e2 uid t2 (snd (handle_response e uid txt w))))))
          = user_states (snd (handle_response e2 uid t2 (snd (handle_response e uid txt w)))))"
  using handle_response_effect [of e uid "txt" w]
    three_affirmative_replies [of e2 e e3 "txt" t2 t3 uid w]
  by blast

lemmas classify_example =
  py_strip_def py_lower_def lower_cp_def is_space_def yes_word_def no_word_def

theorem affirmative_reply_machine_witness:
  "now (example_env False) = now (example_env True)
   \<and> py_strip (py_lower [1044, 1072]) = yes_word
   \<and> py_strip (py_lower [32, 1076, 1040, 10]) = yes_word
   \<and> py_strip (py_lower yes_word) = yes_word
   \<and> \<not> morning_taken (fst (get_user_state (example_env True) 7
            (example_world (example_state False False ''2026-11-07''))))
   \<and> \<not> lunch_taken (fst (get_user_state (example_env True) 7
            (example_world (example_state False False ''2026-11-07''))))
   \<and> fst (handle_response (example_env True) 7 [1044, 1072]
            (example_world (example_state False False ''2026-11-07''))) = MorningAcceptedReply
   \<and> fst (handle_response (example_env False) 7 [32, 1076, 1040, 10]
            (snd (handle_response (example_env True) 7 [1044, 1072]
               (example_world (example_state False False ''2026-11-07''))))) = LunchAcceptedReply
   \<and> fst (handle_response (example_env True) 7 yes_word
            (snd (handle_response (example_env False) 7 [32, 1076, 1040, 10]
               (snd (handle_response (example_env True) 7 [1044, 1072]
                  (example_world (example_state False False ''2026-11-07''))))))) = AllTakenReply"
proof -
  have d: "now (example_env False) = now (example_env True)"
    and d': "now (example_env True) = now (example_env True)"
    by (simp_all add: example_env_def)
  have y1: "py_strip (py_lower [1044, 1072]) = yes_word"
    and y2: "py_strip (py_lower [32, 1076, 1040, 10]) = yes_word"
    and y3: "py_strip (py_lower yes_word) = yes_word"
    by (simp_all add: classify_example)
  have g: "fst (get_user_state (example_env True) 7
             (example_world (example_state False False ''2026-11-07'')))
           = example_state False False ''2026-11-07''"
    by (simp add: run_reminder_example)
  have m: "\<not> morning_taken (fst (get_user_state (example_env True) 7
            (example_world (example_state False False ''2026-11-07''))))"
    and l: "\<not> lunch_taken (fst (get_user_state (example_env True) 7
            (example_world (example_state False False ''2026-11-07''))))"
    by (simp_all only: g) (simp_all add: example_state_def)
  show ?thesis
    using d d' y1 y2 y3 m l
      affirmative_reply_machine [of "example_env True" 7 "[1044, 1072]"
        "example_world (example_state False False ''2026-11-07'')"
        "example_env False" "example_env True" "[32, 1076, 1040, 10]" yes_word]
    by blast
qed

section \<open>Case and white space in replies\<close>

lemma lower_cp_idem: "lower_cp (lower_cp c) = lower_cp c"
  by (simp add: lower_cp_def)

lemma lower_changes_no_space:
  "lower_cp c \<noteq> c \<Longrightarrow> \<not> is_space c \<and> \<not> is_space (lower_cp c)"
  by (auto simp: is_space_def lower_cp_def split: if_splits)

lemma is_space_lower_cp: "is_space (lower_cp c) = is_space c"
  using lower_changes_no_space [of c] by (cases "lower_cp c = c") auto

lemma py_lower_idem: "py_lower (py_lower t) = py_lower t"
  by (simp add: py_lower_def lower_cp_idem)

lemma py_strip_lower: "py_strip (py_lower t) = py_lower (py_strip t)"
  by (simp add: py_strip_def py_lower_def dropWhile_map rev_map comp_def is_space_lower_cp)

text \<open>Once the front is trimmed, trimming the back does not uncover white space in front.\<close>

lemma dropWhile_trimmed:
  "dropWhile P (rev (dropWhile P (rev (dropWhile P t)))) = rev (dropWhile P (rev (dropWhile P t)))"
proof -
  define u where "u = dropWhile P t"
  define v where "v = rev (dropWhile P (rev u))"
  have hu: "u = [] \<or> \<not> P (hd u)"
    unfolding u_def using hd_dropWhile [of P t] by blast
  have "v @ rev (takeWhile P (rev u)) = rev (takeWhile P (rev u) @ dropWhile P (rev u))"
    by (simp only: v_def rev_append)
  also have "\<dots> = rev (rev u)" by (simp only: takeWhile_dropWhile_id)
  finally have split: "u = v @ rev (takeWhile P (rev u))" by simp
  have "v = [] \<or> \<not> P (hd v)"
  proof (cases "v = []")
    case True
    then show ?thesis by simp
  next
    case False
    then have "hd u = hd v" using split by (metis hd_append2)
    moreover have "u \<noteq> []" using False split by auto
    ultimately show ?thesis using hu by simp
  qed
  then have "dropWhile P v = v" by (simp add: dropWhile_eq_self_iff)
  then show ?thesis by (simp add: v_def u_def)
qed

lemma py_strip_idem: "py_strip (py_strip t) = py_strip t"
  by (simp add: py_strip_def dropWhile_trimmed)

lemma classify_invariant: "py_strip (py_lower (py_lower (py_strip t))) = py_strip (py_lower t)"
  by (simp add: py_lower_idem py_strip_lower [symmetric] py_strip_idem)

lemma strip_padded:
  assumes a: "list_all is_space a" and b: "list_all is_space b"
    and v: "v \<noteq> []" "\<not> is_space (hd v)" "\<not> is_space (last v)"
  shows "py_strip (a @ v @ b) = v"
proof -
  have 1: "dropWhile is_space (a @ v @ b) = v @ b"
    using a v by (simp add: dropWhile_append2 list_all_iff dropWhile_eq_self_iff)
  have "dropWhile is_space (rev b @ rev v) = dropWhile is_space (rev v)"
    using b by (intro dropWhile_append2) (simp add: list_all_iff)
  also have "\<dots> = rev v"
    using v by (simp add: dropWhile_eq_self_iff hd_rev)
  finally have 2: "dropWhile is_space (rev b @ rev v) = rev v" .
  show ?thesis by (simp add: py_strip_def 1 2)
qed

lemma padded_variant:
  assumes "list_all is_space a" "list_all is_space b" "py_lower v = k"
    and k: "k \<noteq> []" "\<not> is_space (hd k)" "\<not> is_space (last k)"
  shows "py_strip (py_lower (a @ v @ b)) = k"
proof -
  have la: "list_all is_space (py_lower a)" and lb: "list_all is_space (py_lower b)"
    using assms by (simp_all add: py_lower_def list_all_iff is_space_lower_cp)
  have "py_lower (a @ v @ b) = py_lower a @ k @ py_lower b"
    using assms(3) by (simp add: py_lower_def)
  then show ?thesis
    using strip_padded [OF la lb k] by simp
qed

text \<open>
  C10. The text handler does the same on a text and on the text stripped and lowered:
  same reply, same world. So a text made of white space, then any upper or lower case
  spelling of the affirmative word, then white space, is answered as the affirmative word
  is (one of the three affirmative answers), and likewise with the negative word.
\<close>

theorem reply_classification_invariant:
  "handle_response e uid (py_lower (py_strip txt)) w = handle_response e uid txt w
   \<and> (list_all is_space a \<and> list_all is_space b \<and> py_lower v = yes_word \<longrightarrow>
        fst (handle_response e uid (a @ v @ b) w)
          \<in> {MorningAcceptedReply, LunchAcceptedReply, AllTakenReply})
   \<and> (list_all is_space a \<and> list_all is_space b \<and> py_lower v' = no_word \<longrightarrow>
        fst (handle_response e uid (a @ v' @ b) w) = RemindLaterReply)"
proof -
  have 1: "handle_response e uid (py_lower (py_strip txt)) w = handle_response e uid txt w"
    by (simp add: handle_response_def classify_invariant)
  have 2: "fst (handle_response e uid (a @ v @ b) w)
             \<in> {MorningAcceptedReply, LunchAcceptedReply, AllTakenReply}"
    if "list_all is_space a" "list_all is_space b" "py_lower v = yes_word"
  proof -
    have "py_strip (py_lower (a @ v @ b)) = yes_word"
      using that by (rule padded_variant) (simp_all add: yes_word_def is_space_def)
    then show ?thesis
      using handle_response_effect [of e uid "a @ v @ b" w] by (simp add: Let_def)
  qed
  have 3: "fst (handle_response e uid (a @ v' @ b) w) = RemindLaterReply"
    if "list_all is_space a" "list_all is_space b" "py_lower v' = no_word"
  proof -
    have "py_strip (py_lower (a @ v' @ b)) = no_word"
      using that by (rule padded_variant) (simp_all add: no_word_def is_space_def)
    then show ?thesis
      using handle_response_effect [of e uid "a @ v' @ b" w]
      by (simp add: Let_def yes_word_def no_word_def)
  qed
  show ?thesis using 1 2 3 by blast
qed

theorem reply_classification_invariant_witness:
  "list_all is_space [32, 9] \<and> list_all is_space [10]
   \<and> py_lower [1044, 1040] = yes_word \<and> py_lower [1053, 1045, 1058] = no_word
   \<and> fst (handle_response (example_env True) 7 ([32, 9] @ [1044, 1040] @ [10])
        (example_world (example_state True True ''2026-11-07'')))
       \<in> {MorningAcceptedReply, LunchAcceptedReply, AllTakenReply}
   \<and> fst (handle_response (example_env True) 7 ([32, 9] @ [1053, 1045, 1058] @ [10])
        (example_world (example_state True True ''2026-11-07''))) = RemindLaterReply"
proof -
  have h: "list_all is_space [32, 9]" "list_all is_space [10]"
    "py_lower [1044, 1040] = yes_word" "py_lower [1053, 1045, 1058] = no_word"
    by (simp_all add: classify_example)
  show ?thesis
    using h reply_classification_invariant [of "example_env True" 7 _
        "example_world (example_state True True ''2026-11-07'')"
        "[32, 9]" "[10]" "[1044, 1040]" "[1053, 1045, 1058]"]
    by blast
qed

end
